theory Spec2Isabelle
  imports
    Complex_Main
    "HOL-Library.AList"
    "HOL-Library.Char_ord"
    "HOL-Library.List_Lexorder"
    "HOL-Library.Multiset"
begin

section \<open>Data model\<close>

text \<open>
  The values that travel through the cache are Python objects. The model keeps the
  JSON-shaped ones (\<open>None\<close>, booleans, integers, strings, lists, dictionaries with string
  keys) and one constructor \<open>PObject\<close> for every object \<open>json.dumps\<close> cannot serialise.
  A dictionary is an association list in insertion order; Python guarantees that its keys
  are distinct (\<open>wf_py\<close> below). A string is a list of code points below 256.
  Floating-point payloads are left out.
\<close>

datatype pyval =
    PNone
  | PBool bool
  | PInt int
  | PStr string
  | PList "pyval list"
  | PDict "(string \<times> pyval) list"
  | PObject nat

text \<open>Exceptions that can leave a function of the module: the \<open>TypeError\<close> of
  \<open>json.dumps\<close>, and whatever a wrapped operation or the Redis client raises.\<close>

datatype py_error = TypeError | Raised string

text \<open>
  One entry of \<open>SimpleCacheManager.cache\<close>: the dictionary
  \<open>{'data': value, 'expires_at': current_time + expire, 'created_at': current_time}\<close>.
  Readings of \<open>time.time()\<close> are modelled as real numbers (seconds), so the rounding of
  floating-point addition is abstracted away.
\<close>

record entry =
  data :: pyval
  expires_at :: real
  created_at :: real

text \<open>
  Both manager classes carry the flag \<open>self.connected\<close>; it is the common part of the two
  records. \<open>SimpleCacheManager\<close> adds the dictionary \<open>self.cache\<close> (insertion ordered),
  \<open>CacheManager\<close> the client handle \<open>self.redis\<close> (\<open>None\<close> when there is none), whose
  type \<open>'r\<close> stands for the state of the connection and of the server behind it.
\<close>

record backend =
  connected :: bool

record SimpleCacheManager = backend +
  cache :: "(string \<times> entry) list"

record 'r CacheManager = backend +
  redis :: "'r option"

section \<open>Key derivation\<close>

text \<open>
  \<open>json.dumps(obj, sort_keys=True)\<close> with the default separators and
  \<open>ensure_ascii=True\<close>. A character outside \<open>' '..'~'\<close>, a quote and a backslash are
  escaped as the encoder's table \<open>ESCAPE_DCT\<close> says, every other one as \<open>\u00XX\<close>.
\<close>

definition hex_digit :: "nat \<Rightarrow> char" where
  "hex_digit n = (if n < 10 then char_of (48 + n) else char_of (87 + n))"

definition escape_char :: "char \<Rightarrow> string" where
  "escape_char c =
     (if c = CHR 0x22 then [CHR 0x5C, CHR 0x22]
      else if c = CHR 0x5C then [CHR 0x5C, CHR 0x5C]
      else if c = CHR 0x0A then [CHR 0x5C, CHR ''n'']
      else if c = CHR 0x0D then [CHR 0x5C, CHR ''r'']
      else if c = CHR 0x09 then [CHR 0x5C, CHR ''t'']
      else if c = CHR 0x0C then [CHR 0x5C, CHR ''f'']
      else if c = CHR 0x08 then [CHR 0x5C, CHR ''b'']
      else if CHR '' '' \<le> c \<and> c \<le> CHR ''~'' then [c]
      else [CHR 0x5C, CHR ''u'', CHR ''0'', CHR ''0'',
            hex_digit (of_char c div 16), hex_digit (of_char c mod 16)])"

definition encode_basestring_ascii :: "string \<Rightarrow> string" where
  "encode_basestring_ascii s = [CHR 0x22] @ concat (map escape_char s) @ [CHR 0x22]"

text \<open>Decimal digits of an integer, as \<open>int.__repr__\<close> prints them.\<close>

function str_of_nat :: "nat \<Rightarrow> string" where
  "str_of_nat n =
     (if n < 10 then [char_of (48 + n)]
      else str_of_nat (n div 10) @ [char_of (48 + n mod 10)])"
  by pat_completeness auto
termination
  by (relation "measure id") auto

definition str_of_int :: "int \<Rightarrow> string" where
  "str_of_int i = (if i < 0 then CHR ''-'' # str_of_nat (nat (- i)) else str_of_nat (nat i))"

text \<open>\<open>sep.join(chunks)\<close>.\<close>

fun join :: "string \<Rightarrow> string list \<Rightarrow> string" where
  "join sep [] = []"
| "join sep [x] = x"
| "join sep (x # y # ys) = x @ sep @ join sep (y # ys)"

text \<open>The encoder walks a container from left to right; the first element that cannot
  be serialised raises.\<close>

fun sequence :: "(py_error + 'a) list \<Rightarrow> py_error + 'a list" where
  "sequence [] = Inr []"
| "sequence (Inl e # _) = Inl e"
| "sequence (Inr x # rs) = (case sequence rs of Inl e \<Rightarrow> Inl e | Inr xs \<Rightarrow> Inr (x # xs))"

fun dumps :: "pyval \<Rightarrow> py_error + string" where
  "dumps PNone = Inr ''null''"
| "dumps (PBool b) = Inr (if b then ''true'' else ''false'')"
| "dumps (PInt i) = Inr (str_of_int i)"
| "dumps (PStr s) = Inr (encode_basestring_ascii s)"
| "dumps (PList xs) =
     (case sequence (map dumps xs) of
        Inl e \<Rightarrow> Inl e
      | Inr chunks \<Rightarrow> Inr (''['' @ join '', '' chunks @ '']''))"
| "dumps (PDict items) =
     (case sequence (map (\<lambda>(k, v). case dumps v of
                                      Inl e \<Rightarrow> Inl e
                                    | Inr s \<Rightarrow> Inr (encode_basestring_ascii k @ '': '' @ s))
                         (sort_key fst items)) of
        Inl e \<Rightarrow> Inl e
      | Inr chunks \<Rightarrow> Inr (''{'' @ join '', '' chunks @ ''}''))"
| "dumps (PObject n) = Inl TypeError"

text \<open>The encoding of one item of a dictionary, as it stands in \<open>dumps\<close>.\<close>

abbreviation encode_item :: "string \<times> pyval \<Rightarrow> py_error + string" where
  "encode_item \<equiv> (\<lambda>(k, v). case dumps v of
                              Inl e \<Rightarrow> Inl e
                            | Inr s \<Rightarrow> Inr (encode_basestring_ascii k @ '': '' @ s))"

text \<open>
  \<open>_generate_key(prefix, **kwargs)\<close>, the same in both modules. \<open>H\<close> is the library
  function \<open>lambda s: hashlib.md5(s.encode()).hexdigest()\<close>, taken as a parameter.
\<close>

definition generate_key ::
  "(string \<Rightarrow> string) \<Rightarrow> string \<Rightarrow> (string \<times> pyval) list \<Rightarrow> py_error + string" where
  "generate_key H prefix kwargs =
     (case dumps (PDict kwargs) of
        Inl e \<Rightarrow> Inl e
      | Inr key_data \<Rightarrow> Inr (prefix @ '':'' @ H key_data))"

text \<open>
  When two parameter sets hold the same key-value pairs: Python's \<open>==\<close> on the modelled
  values. Two dictionaries are equal when they have the same number of items and every
  key of the first is a key of the second with an equal value; two lists are equal
  element by element.
\<close>

fun py_eq :: "pyval \<Rightarrow> pyval \<Rightarrow> bool"
  and py_eq_list :: "pyval list \<Rightarrow> pyval list \<Rightarrow> bool"
  and py_eq_items :: "(string \<times> pyval) list \<Rightarrow> (string \<times> pyval) list \<Rightarrow> bool" where
  "py_eq (PList xs) (PList ys) = py_eq_list xs ys"
| "py_eq (PDict xs) (PDict ys) = (length xs = length ys \<and> py_eq_items xs ys)"
| "py_eq a b = (a = b)"
| "py_eq_list [] ys = (ys = [])"
| "py_eq_list (x # xs) ys =
     (case ys of [] \<Rightarrow> False | y # ys' \<Rightarrow> py_eq x y \<and> py_eq_list xs ys')"
| "py_eq_items [] ys = True"
| "py_eq_items ((k, v) # xs) ys =
     ((case map_of ys k of None \<Rightarrow> False | Some v' \<Rightarrow> py_eq v v') \<and> py_eq_items xs ys)"

text \<open>The representation invariant of Python dictionaries: no key occurs twice, at any
  depth.\<close>

fun wf_py :: "pyval \<Rightarrow> bool" where
  "wf_py (PList xs) = list_all wf_py xs"
| "wf_py (PDict items) = (distinct (map fst items) \<and> list_all (\<lambda>(k, v). wf_py v) items)"
| "wf_py _ = True"

section \<open>The in-process backend (simple\_cache.py)\<close>

text \<open>\<open>__init__\<close>, \<open>connect\<close> and \<open>disconnect\<close>.\<close>

definition init_simple :: SimpleCacheManager where
  "init_simple = \<lparr>connected = True, cache = []\<rparr>"

definition connect_simple :: "SimpleCacheManager \<Rightarrow> SimpleCacheManager" where
  "connect_simple m = m\<lparr>cache := [], connected := True\<rparr>"

definition disconnect_simple :: "SimpleCacheManager \<Rightarrow> SimpleCacheManager" where
  "disconnect_simple m = m\<lparr>cache := [], connected := False\<rparr>"

text \<open>
  \<open>get(key)\<close>, with the reading \<open>now\<close> of \<open>time.time()\<close> as an argument. The result is the
  returned Python value (\<open>PNone\<close> for \<open>None\<close>) and the manager after the call. The
  \<open>try\<close> block cannot raise on entries written by \<open>set\<close>, so its handler has no branch.
\<close>

definition get_simple ::
  "SimpleCacheManager \<Rightarrow> real \<Rightarrow> string \<Rightarrow> pyval \<times> SimpleCacheManager" where
  "get_simple m now key =
     (if \<not> connected m then (PNone, m)
      else (case map_of (cache m) key of
              Some cache_entry \<Rightarrow>
                (if now > expires_at cache_entry
                 then (PNone, m\<lparr>cache := AList.delete key (cache m)\<rparr>)
                 else (data cache_entry, m))
            | None \<Rightarrow> (PNone, m)))"

text \<open>
  The sum \<open>current_time + expire\<close> of a float and an integer converts the integer to a
  float first. The conversion rounds to the nearest float and raises \<open>OverflowError\<close>
  when that is beyond the largest one, \<open>2^1024 - 2^971\<close>: exactly when the magnitude of
  the integer is at least \<open>2^1024 - 2^970\<close>.
\<close>

definition int_fits_float :: "int \<Rightarrow> bool" where
  "int_fits_float i = (\<bar>i\<bar> < 2 ^ 1024 - 2 ^ 970)"

text \<open>
  \<open>set(key, value, expire)\<close>: an existing key keeps its position, a new one is
  appended, which is what \<open>AList.update\<close> does. When \<open>current_time + expire\<close> raises,
  the handler of the \<open>try\<close> block returns \<open>False\<close> and nothing has been stored. In
  \<open>delete\<close> and \<open>clear_pattern\<close> below nothing in the \<open>try\<close> block raises, so their
  handlers have no branch.
\<close>

definition set_simple ::
  "SimpleCacheManager \<Rightarrow> real \<Rightarrow> string \<Rightarrow> pyval \<Rightarrow> int \<Rightarrow> bool \<times> SimpleCacheManager" where
  "set_simple m now key v expire =
     (if \<not> connected m then (False, m)
      else if \<not> int_fits_float expire then (False, m)
      else (True, m\<lparr>cache := AList.update key
              \<lparr>data = v, expires_at = now + real_of_int expire, created_at = now\<rparr>
              (cache m)\<rparr>))"

text \<open>\<open>delete(key)\<close>.\<close>

definition delete_simple ::
  "SimpleCacheManager \<Rightarrow> string \<Rightarrow> bool \<times> SimpleCacheManager" where
  "delete_simple m key =
     (if \<not> connected m then (False, m)
      else (True, if map_of (cache m) key \<noteq> None
                  then m\<lparr>cache := AList.delete key (cache m)\<rparr> else m))"

text \<open>\<open>key.startswith(p)\<close> and \<open>pattern.replace("*", "")\<close>.\<close>

definition startswith :: "string \<Rightarrow> string \<Rightarrow> bool" where
  "startswith s p = (take (length p) s = p)"

definition replace_star :: "string \<Rightarrow> string" where
  "replace_star pattern = filter (\<lambda>c. c \<noteq> CHR ''*'') pattern"

text \<open>The loop \<open>for key in keys: del self.cache[key]\<close>.\<close>

definition del_keys :: "string list \<Rightarrow> (string \<times> entry) list \<Rightarrow> (string \<times> entry) list" where
  "del_keys keys c = fold AList.delete keys c"

text \<open>\<open>clear_pattern(pattern)\<close>.\<close>

definition clear_pattern_simple ::
  "SimpleCacheManager \<Rightarrow> string \<Rightarrow> bool \<times> SimpleCacheManager" where
  "clear_pattern_simple m pattern =
     (if \<not> connected m then (False, m)
      else if pattern = ''*'' then (True, m\<lparr>cache := []\<rparr>)
      else (let pattern_prefix = replace_star pattern;
                keys_to_delete =
                  filter (\<lambda>key. startswith key pattern_prefix) (map fst (cache m))
            in (True, m\<lparr>cache := del_keys keys_to_delete (cache m)\<rparr>)))"

text \<open>\<open>_cleanup_expired()\<close>.\<close>

definition cleanup_expired :: "SimpleCacheManager \<Rightarrow> real \<Rightarrow> SimpleCacheManager" where
  "cleanup_expired m now =
     (let expired_keys = map fst (filter (\<lambda>(key, e). now > expires_at e) (cache m))
      in m\<lparr>cache := del_keys expired_keys (cache m)\<rparr>)"

text \<open>
  \<open>get_cache_stats()\<close>: the fields \<open>status\<close> and \<open>keys\<close> of the returned dictionary, and
  the manager after the sweep. The memory estimate and the constant fields are left out.
\<close>

definition get_cache_stats_simple ::
  "SimpleCacheManager \<Rightarrow> real \<Rightarrow> (string \<times> nat) \<times> SimpleCacheManager" where
  "get_cache_stats_simple m now =
     (if \<not> connected m then ((''disconnected'', 0), m)
      else (let m' = cleanup_expired m now
            in ((''connected'', length (cache m')), m')))"

text \<open>
  The wrapper that \<open>cache_response(prefix, expire)\<close> puts around \<open>func\<close>, called with
  \<open>args\<close> and \<open>kwargs\<close>. \<open>str_args\<close> is Python's \<open>str\<close> on the tuple of positional
  arguments, a parameter like \<open>H\<close>. \<open>t_get\<close> and \<open>t_set\<close> are the clock readings inside
  \<open>get\<close> and \<open>set\<close>. The wrapped operation runs on the module's global manager and on
  the rest of the world \<open>'w\<close>, and may raise; an exception of \<open>_generate_key\<close> or of
  \<open>func\<close> leaves the wrapper as it is.
\<close>

definition cache_response_simple ::
  "(string \<Rightarrow> string) \<Rightarrow> (pyval list \<Rightarrow> string) \<Rightarrow> string \<Rightarrow> int \<Rightarrow>
   (pyval list \<Rightarrow> (string \<times> pyval) list \<Rightarrow> SimpleCacheManager \<times> 'w \<Rightarrow>
      (py_error + pyval) \<times> SimpleCacheManager \<times> 'w) \<Rightarrow>
   pyval list \<Rightarrow> (string \<times> pyval) list \<Rightarrow> real \<Rightarrow> real \<Rightarrow>
   SimpleCacheManager \<times> 'w \<Rightarrow> (py_error + pyval) \<times> SimpleCacheManager \<times> 'w" where
  "cache_response_simple H str_args prefix expire func args kwargs t_get t_set st =
     (case generate_key H prefix
             [(''args'', PStr (str_args args)), (''kwargs'', PDict kwargs)] of
        Inl e \<Rightarrow> (Inl e, st)
      | Inr cache_key \<Rightarrow>
          (case get_simple (fst st) t_get cache_key of
             (cached_result, m1) \<Rightarrow>
               if cached_result \<noteq> PNone then (Inr cached_result, m1, snd st)
               else (case func args kwargs (m1, snd st) of
                       (Inl e, st') \<Rightarrow> (Inl e, st')
                     | (Inr result, m2, w2) \<Rightarrow>
                         (Inr result, snd (set_simple m2 t_set cache_key result expire), w2))))"

text \<open>
  Operations to wrap, for the instances below. The first increments a counter and returns
  it; the second increments the counter and returns \<open>None\<close>; the third increments the
  counter and returns an object that is not JSON-shaped (a date, say). The last one
  calls \<open>cache_manager.set\<close> itself, with the key the wrapper derives for the prefix
  \<open>"ns"\<close> and no positional arguments, and then returns \<open>None\<close>.
\<close>

definition counting_op ::
  "pyval list \<Rightarrow> (string \<times> pyval) list \<Rightarrow> 'm \<times> nat \<Rightarrow> (py_error + pyval) \<times> 'm \<times> nat" where
  "counting_op args kwargs st = (Inr (PInt (int (snd st + 1))), fst st, snd st + 1)"

definition none_op ::
  "pyval list \<Rightarrow> (string \<times> pyval) list \<Rightarrow> 'm \<times> nat \<Rightarrow> (py_error + pyval) \<times> 'm \<times> nat" where
  "none_op args kwargs st = (Inr PNone, fst st, snd st + 1)"

definition object_op ::
  "pyval list \<Rightarrow> (string \<times> pyval) list \<Rightarrow> 'm \<times> nat \<Rightarrow> (py_error + pyval) \<times> 'm \<times> nat" where
  "object_op args kwargs st = (Inr (PObject 0), fst st, snd st + 1)"

definition storing_none_op ::
  "pyval list \<Rightarrow> (string \<times> pyval) list \<Rightarrow> SimpleCacheManager \<times> nat \<Rightarrow>
   (py_error + pyval) \<times> SimpleCacheManager \<times> nat" where
  "storing_none_op args kwargs st =
     (case generate_key id ''ns'' [(''args'', PStr ''()''), (''kwargs'', PDict kwargs)] of
        Inl e \<Rightarrow> (Inl e, st)
      | Inr own_key \<Rightarrow>
          (Inr PNone, snd (set_simple (fst st) 0 own_key (PInt 1) 300), snd st + 1))"

section \<open>The Redis backend (cache.py)\<close>

text \<open>
  The calls of the \<open>aioredis\<close> client that the module makes, as parameters: each takes the
  handle and returns an exception or its reply, with the handle after the call.
  \<open>json_loads\<close> is \<open>json.loads\<close> and \<open>json_dumps_default\<close> is
  \<open>lambda v: json.dumps(v, default=str)\<close>.
\<close>

record 'r redis_client =
  redis_get :: "'r \<Rightarrow> string \<Rightarrow> (py_error + string option) \<times> 'r"
  redis_setex :: "'r \<Rightarrow> string \<Rightarrow> int \<Rightarrow> string \<Rightarrow> (py_error + unit) \<times> 'r"
  redis_delete :: "'r \<Rightarrow> string list \<Rightarrow> (py_error + unit) \<times> 'r"
  redis_keys :: "'r \<Rightarrow> string \<Rightarrow> (py_error + string list) \<times> 'r"
  json_loads :: "string \<Rightarrow> py_error + pyval"
  json_dumps_default :: "pyval \<Rightarrow> py_error + string"

text \<open>\<open>CacheManager.get(key)\<close>: every exception of the \<open>try\<close> block ends in
  \<open>return None\<close>.\<close>

definition get_redis ::
  "'r redis_client \<Rightarrow> 'r CacheManager \<Rightarrow> string \<Rightarrow> pyval \<times> 'r CacheManager" where
  "get_redis api m key =
     (if \<not> connected m \<or> redis m = None then (PNone, m)
      else (case redis m of
              None \<Rightarrow> (PNone, m)
            | Some r \<Rightarrow>
                (case redis_get api r key of
                   (Inl e, r') \<Rightarrow> (PNone, m\<lparr>redis := Some r'\<rparr>)
                 | (Inr None, r') \<Rightarrow> (PNone, m\<lparr>redis := Some r'\<rparr>)
                 | (Inr (Some s), r') \<Rightarrow>
                     (if s \<noteq> []
                      then (case json_loads api s of
                              Inl e \<Rightarrow> (PNone, m\<lparr>redis := Some r'\<rparr>)
                            | Inr v \<Rightarrow> (v, m\<lparr>redis := Some r'\<rparr>))
                      else (PNone, m\<lparr>redis := Some r'\<rparr>)))))"

text \<open>\<open>CacheManager.set(key, value, expire)\<close>.\<close>

definition set_redis ::
  "'r redis_client \<Rightarrow> 'r CacheManager \<Rightarrow> string \<Rightarrow> pyval \<Rightarrow> int \<Rightarrow> bool \<times> 'r CacheManager" where
  "set_redis api m key v expire =
     (if \<not> connected m \<or> redis m = None then (False, m)
      else (case redis m of
              None \<Rightarrow> (False, m)
            | Some r \<Rightarrow>
                (case json_dumps_default api v of
                   Inl e \<Rightarrow> (False, m)
                 | Inr json_value \<Rightarrow>
                     (case redis_setex api r key expire json_value of
                        (Inl e, r') \<Rightarrow> (False, m\<lparr>redis := Some r'\<rparr>)
                      | (Inr u, r') \<Rightarrow> (True, m\<lparr>redis := Some r'\<rparr>)))))"

text \<open>\<open>CacheManager.delete(key)\<close>.\<close>

definition delete_redis ::
  "'r redis_client \<Rightarrow> 'r CacheManager \<Rightarrow> string \<Rightarrow> bool \<times> 'r CacheManager" where
  "delete_redis api m key =
     (if \<not> connected m \<or> redis m = None then (False, m)
      else (case redis m of
              None \<Rightarrow> (False, m)
            | Some r \<Rightarrow>
                (case redis_delete api r [key] of
                   (Inl e, r') \<Rightarrow> (False, m\<lparr>redis := Some r'\<rparr>)
                 | (Inr u, r') \<Rightarrow> (True, m\<lparr>redis := Some r'\<rparr>))))"

text \<open>\<open>CacheManager.clear_pattern(pattern)\<close>.\<close>

definition clear_pattern_redis ::
  "'r redis_client \<Rightarrow> 'r CacheManager \<Rightarrow> string \<Rightarrow> bool \<times> 'r CacheManager" where
  "clear_pattern_redis api m pattern =
     (if \<not> connected m \<or> redis m = None then (False, m)
      else (case redis m of
              None \<Rightarrow> (False, m)
            | Some r \<Rightarrow>
                (case redis_keys api r pattern of
                   (Inl e, r') \<Rightarrow> (False, m\<lparr>redis := Some r'\<rparr>)
                 | (Inr keys, r') \<Rightarrow>
                     (if keys \<noteq> []
                      then (case redis_delete api r' keys of
                              (Inl e, r'') \<Rightarrow> (False, m\<lparr>redis := Some r''\<rparr>)
                            | (Inr u, r'') \<Rightarrow> (True, m\<lparr>redis := Some r''\<rparr>))
                      else (True, m\<lparr>redis := Some r'\<rparr>)))))"

text \<open>
  The wrapper of \<open>cache.py\<close>: the text of \<open>cache_response\<close> is the same, the global
  manager is a \<open>CacheManager\<close>. The clock plays no part here: expiry is the server's
  business and shows in what the client replies.
\<close>

definition cache_response_redis ::
  "'r redis_client \<Rightarrow> (string \<Rightarrow> string) \<Rightarrow> (pyval list \<Rightarrow> string) \<Rightarrow> string \<Rightarrow> int \<Rightarrow>
   (pyval list \<Rightarrow> (string \<times> pyval) list \<Rightarrow> 'r CacheManager \<times> 'w \<Rightarrow>
      (py_error + pyval) \<times> 'r CacheManager \<times> 'w) \<Rightarrow>
   pyval list \<Rightarrow> (string \<times> pyval) list \<Rightarrow>
   'r CacheManager \<times> 'w \<Rightarrow> (py_error + pyval) \<times> 'r CacheManager \<times> 'w" where
  "cache_response_redis api H str_args prefix expire func args kwargs st =
     (case generate_key H prefix
             [(''args'', PStr (str_args args)), (''kwargs'', PDict kwargs)] of
        Inl e \<Rightarrow> (Inl e, st)
      | Inr cache_key \<Rightarrow>
          (case get_redis api (fst st) cache_key of
             (cached_result, m1) \<Rightarrow>
               if cached_result \<noteq> PNone then (Inr cached_result, m1, snd st)
               else (case func args kwargs (m1, snd st) of
                       (Inl e, st') \<Rightarrow> (Inl e, st')
                     | (Inr result, m2, w2) \<Rightarrow>
                         (Inr result, snd (set_redis api m2 cache_key result expire), w2))))"

text \<open>
  \<open>json.dumps(value, default=str)\<close>: the items of a dictionary in insertion order, and
  an object that is not JSON-shaped as the JSON string of its \<open>str\<close>, which \<open>py_str\<close>
  gives.
\<close>

fun dumps_default :: "(nat \<Rightarrow> string) \<Rightarrow> pyval \<Rightarrow> py_error + string" where
  "dumps_default py_str PNone = Inr ''null''"
| "dumps_default py_str (PBool b) = Inr (if b then ''true'' else ''false'')"
| "dumps_default py_str (PInt i) = Inr (str_of_int i)"
| "dumps_default py_str (PStr s) = Inr (encode_basestring_ascii s)"
| "dumps_default py_str (PList xs) =
     (case sequence (map (dumps_default py_str) xs) of
        Inl e \<Rightarrow> Inl e
      | Inr chunks \<Rightarrow> Inr (''['' @ join '', '' chunks @ '']''))"
| "dumps_default py_str (PDict items) =
     (case sequence (map (\<lambda>(k, v). case dumps_default py_str v of
                                      Inl e \<Rightarrow> Inl e
                                    | Inr s \<Rightarrow> Inr (encode_basestring_ascii k @ '': '' @ s))
                         items) of
        Inl e \<Rightarrow> Inl e
      | Inr chunks \<Rightarrow> Inr (''{'' @ join '', '' chunks @ ''}''))"
| "dumps_default py_str (PObject n) = Inr (encode_basestring_ascii (py_str n))"

text \<open>
  \<open>json.loads\<close> on the texts of scalars: \<open>null\<close>, \<open>true\<close>, \<open>false\<close>, an integer, and a
  string literal without escape sequences. The instances below decode such texts only;
  on every other text this decoder raises, which \<open>json.loads\<close> does not do for arrays,
  objects, floats and strings with escapes.
\<close>

definition is_digit :: "char \<Rightarrow> bool" where
  "is_digit c = (CHR ''0'' \<le> c \<and> c \<le> CHR ''9'')"

definition is_plain_char :: "char \<Rightarrow> bool" where
  "is_plain_char c = (CHR '' '' \<le> c \<and> c \<le> CHR ''~'' \<and> c \<noteq> CHR 0x22 \<and> c \<noteq> CHR 0x5C)"

definition nat_of_digits :: "string \<Rightarrow> nat" where
  "nat_of_digits ds = fold (\<lambda>c n. 10 * n + (of_char c - 48)) ds 0"

definition is_json_nat :: "string \<Rightarrow> bool" where
  "is_json_nat ds = (ds \<noteq> [] \<and> list_all is_digit ds \<and> (length ds = 1 \<or> hd ds \<noteq> CHR ''0''))"

definition loads_scalar :: "string \<Rightarrow> py_error + pyval" where
  "loads_scalar s =
     (if s = ''null'' then Inr PNone
      else if s = ''true'' then Inr (PBool True)
      else if s = ''false'' then Inr (PBool False)
      else if is_json_nat s then Inr (PInt (int (nat_of_digits s)))
      else if s \<noteq> [] \<and> hd s = CHR ''-'' \<and> is_json_nat (tl s)
        then Inr (PInt (- int (nat_of_digits (tl s))))
      else if 2 \<le> length s \<and> hd s = CHR 0x22 \<and> last s = CHR 0x22
              \<and> list_all is_plain_char (butlast (tl s))
        then Inr (PStr (butlast (tl s)))
      else Inl (Raised ''JSONDecodeError''))"

text \<open>
  A client of a server that keeps every key it is given, seen before any key has
  expired: the handle is the server's table of texts. \<open>SETEX\<close> refuses an expiry that
  is not positive, and \<open>KEYS\<close> is refused altogether, as on a server where that command
  is disabled. An object that is not JSON-shaped prints as \<open>2024-01-01\<close>.
\<close>

definition kv_client :: "(string \<times> string) list redis_client" where
  "kv_client =
     \<lparr>redis_get = (\<lambda>r k. (Inr (map_of r k), r)),
      redis_setex = (\<lambda>r k e v. if e \<le> 0 then (Inl (Raised ''ResponseError''), r)
                                 else (Inr (), AList.update k v r)),
      redis_delete = (\<lambda>r ks. (Inr (), fold AList.delete ks r)),
      redis_keys = (\<lambda>r p. (Inl (Raised ''ResponseError''), r)),
      json_loads = loads_scalar,
      json_dumps_default = dumps_default (\<lambda>n. ''2024-01-01'')\<rparr>"

text \<open>
  A client with no server behind it, where every call raises, together with a codec
  that rejects everything. It stands for the parameters in the instances below, in
  which the manager is disconnected and none of them is called.
\<close>

definition dead_client :: "unit redis_client" where
  "dead_client =
     \<lparr>redis_get = (\<lambda>r k. (Inl (Raised ''ConnectionError''), r)),
      redis_setex = (\<lambda>r k e v. (Inl (Raised ''ConnectionError''), r)),
      redis_delete = (\<lambda>r ks. (Inl (Raised ''ConnectionError''), r)),
      redis_keys = (\<lambda>r p. (Inl (Raised ''ConnectionError''), r)),
      json_loads = (\<lambda>s. Inl (Raised ''JSONDecodeError'')),
      json_dumps_default = (\<lambda>v. Inl TypeError)\<rparr>"

section \<open>Properties of the in-process backend\<close>

lemma map_of_del_keys:
  "map_of (del_keys ks c) k = (if k \<in> set ks then None else map_of c k)"
  unfolding del_keys_def
  by (induction ks arbitrary: c) (auto simp: delete_conv')

lemma map_of_clear_pattern:
  assumes "connected m"
  shows "map_of (cache (snd (clear_pattern_simple m pattern))) k =
         (if pattern = ''*'' \<or> startswith k (replace_star pattern) then None
          else map_of (cache m) k)"
proof (cases "pattern = ''*''")
  case True
  then show ?thesis using assms by (simp add: clear_pattern_simple_def)
next
  case False
  have "k \<in> fst ` set (cache m) \<or> map_of (cache m) k = None"
    by (metis map_of_eq_None_iff)
  then show ?thesis using assms False
    by (auto simp: clear_pattern_simple_def Let_def map_of_del_keys)
qed

lemma int_fits_float_small: "\<bar>i\<bar> \<le> 1000 \<Longrightarrow> int_fits_float i"
  by (simp add: int_fits_float_def)

lemma set_simple_stored:
  "fst (set_simple m now key v expire) = (connected m \<and> int_fits_float expire)"
  by (simp add: set_simple_def)

lemma set_simple_not_stored:
  "\<not> fst (set_simple m now key v expire) \<Longrightarrow> snd (set_simple m now key v expire) = m"
  by (simp add: set_simple_def split: if_splits)

lemma get_after_set:
  assumes "fst (set_simple m t0 key v ttl)"
  shows "get_simple (snd (set_simple m t0 key v ttl)) now key =
         (if now > t0 + real_of_int ttl
          then (PNone, (snd (set_simple m t0 key v ttl))
                  \<lparr>cache := AList.delete key (cache (snd (set_simple m t0 key v ttl)))\<rparr>)
          else (v, snd (set_simple m t0 key v ttl)))"
  using assms by (simp add: get_simple_def set_simple_def update_conv' split: if_splits)

text \<open>
  C10. In the connected state \<open>delete(key)\<close> returns \<open>True\<close> whether or not the key is
  stored, the manager stays connected, the key is absent afterwards, and the entry under
  every other key is unchanged.
\<close>

theorem delete_connected_true:
  assumes "connected m"
  shows "fst (delete_simple m key) = True
       \<and> connected (snd (delete_simple m key))
       \<and> map_of (cache (snd (delete_simple m key))) key = None
       \<and> (\<forall>k. k \<noteq> key \<longrightarrow> map_of (cache (snd (delete_simple m key))) k = map_of (cache m) k)"
  using assms by (auto simp: delete_simple_def delete_conv')

theorem delete_connected_true_witness:
  "connected (snd (set_simple init_simple 0 ''a'' (PInt 1) 300))
   \<and> fst (delete_simple (snd (set_simple init_simple 0 ''a'' (PInt 1) 300)) ''b'') = True
   \<and> fst (delete_simple (snd (set_simple init_simple 0 ''a'' (PInt 1) 300)) ''a'') = True
   \<and> map_of (cache (snd (delete_simple (snd (set_simple init_simple 0 ''a'' (PInt 1) 300)) ''b''))) ''a''
       = Some \<lparr>data = PInt 1, expires_at = 300, created_at = 0\<rparr>"
proof -
  let ?m = "snd (set_simple init_simple 0 ''a'' (PInt 1) 300)"
  have c: "connected ?m" by (simp add: set_simple_def init_simple_def int_fits_float_def)
  have "map_of (cache (snd (delete_simple ?m ''b''))) ''a'' = map_of (cache ?m) ''a''"
    using delete_connected_true[OF c, of "''b''"] by simp
  moreover have "map_of (cache ?m) ''a'' = Some \<lparr>data = PInt 1, expires_at = 300, created_at = 0\<rparr>"
    by (simp add: set_simple_def init_simple_def int_fits_float_def)
  ultimately show ?thesis
    using c delete_connected_true[OF c, of "''b''"] delete_connected_true[OF c, of "''a''"]
    by simp
qed

text \<open>
  C2. On a manager whose flag \<open>connected\<close> is false, \<open>get\<close> returns \<open>None\<close> and \<open>set\<close>,
  \<open>delete\<close> and \<open>clear_pattern\<close> return \<open>False\<close>, for every key, value, ttl, pattern and
  clock reading, in both backends and whatever the Redis client would do; the manager
  is left as it was. Each operation returns a value: no exception leaves it.
\<close>

theorem degrade_on_disconnect:
  assumes "\<not> connected m" and "\<not> connected r"
  shows "get_simple m now key = (PNone, m)
       \<and> set_simple m now key v ttl = (False, m)
       \<and> delete_simple m key = (False, m)
       \<and> clear_pattern_simple m pattern = (False, m)
       \<and> get_redis api r key = (PNone, r)
       \<and> set_redis api r key v ttl = (False, r)
       \<and> delete_redis api r key = (False, r)
       \<and> clear_pattern_redis api r pattern = (False, r)"
  using assms
  by (simp add: get_simple_def set_simple_def delete_simple_def clear_pattern_simple_def
      get_redis_def set_redis_def delete_redis_def clear_pattern_redis_def)

theorem degrade_on_disconnect_witness:
  "\<not> connected (disconnect_simple (snd (set_simple init_simple 0 ''k'' (PInt 1) 300)))
   \<and> \<not> connected \<lparr>connected = False, redis = Some ()\<rparr>
   \<and> get_simple (disconnect_simple (snd (set_simple init_simple 0 ''k'' (PInt 1) 300))) 1 ''k''
       = (PNone, \<lparr>connected = False, cache = []\<rparr>)
   \<and> set_simple (disconnect_simple (snd (set_simple init_simple 0 ''k'' (PInt 1) 300))) 1 ''k'' (PInt 2) 300
       = (False, \<lparr>connected = False, cache = []\<rparr>)
   \<and> delete_simple (disconnect_simple (snd (set_simple init_simple 0 ''k'' (PInt 1) 300))) ''k''
       = (False, \<lparr>connected = False, cache = []\<rparr>)
   \<and> clear_pattern_simple (disconnect_simple (snd (set_simple init_simple 0 ''k'' (PInt 1) 300))) ''*''
       = (False, \<lparr>connected = False, cache = []\<rparr>)
   \<and> get_redis dead_client \<lparr>connected = False, redis = Some ()\<rparr> ''k''
       = (PNone, \<lparr>connected = False, redis = Some ()\<rparr>)
   \<and> set_redis dead_client \<lparr>connected = False, redis = Some ()\<rparr> ''k'' (PInt 2) 300
       = (False, \<lparr>connected = False, redis = Some ()\<rparr>)"
proof -
  let ?m = "disconnect_simple (snd (set_simple init_simple 0 ''k'' (PInt 1) 300))"
  let ?r = "\<lparr>connected = False, redis = Some ()\<rparr>"
  have m: "?m = \<lparr>connected = False, cache = []\<rparr>"
    by (simp add: disconnect_simple_def set_simple_def init_simple_def int_fits_float_def)
  have a: "\<not> connected ?m" by (simp add: m)
  have b: "\<not> connected ?r" by simp
  show ?thesis
    using a b
      degrade_on_disconnect[OF a b, of 1 "''k''" "PInt 2" 300 "''*''" dead_client]
    by (simp add: m)
qed

text \<open>
  C3, as the spec states it, makes an entry absent from \<open>created_at + ttl\<close> on. The code
  tests \<open>current_time > expires_at\<close>: at the clock reading \<open>created_at + ttl\<close> itself the
  entry set at time 0 with ttl 1 is still returned, and it stays in the store.
\<close>

theorem expiry_boundary_counterexample:
  "get_simple (snd (set_simple init_simple 0 ''k'' (PInt 7) 1)) 1 ''k''
     = (PInt 7, snd (set_simple init_simple 0 ''k'' (PInt 7) 1))
   \<and> map_of (cache (snd (get_simple (snd (set_simple init_simple 0 ''k'' (PInt 7) 1)) 1 ''k''))) ''k''
     = Some \<lparr>data = PInt 7, expires_at = 1, created_at = 0\<rparr>"
  by (simp add: get_simple_def set_simple_def init_simple_def int_fits_float_def)

text \<open>
  C3, amended. An entry stored by \<open>set\<close> at time \<open>t0\<close> (the call returned \<open>True\<close>) is
  returned by \<open>get\<close>, and the store is left unchanged, at every time up to and including
  \<open>t0 + ttl\<close>; at every time strictly after \<open>t0 + ttl\<close> a \<open>get\<close> on the key returns
  \<open>None\<close> and removes the entry from the store.
\<close>

theorem expiry_boundary:
  assumes "fst (set_simple m t0 key v ttl)"
  shows "(now \<le> t0 + real_of_int ttl \<longrightarrow>
            get_simple (snd (set_simple m t0 key v ttl)) now key
              = (v, snd (set_simple m t0 key v ttl)))
       \<and> (now > t0 + real_of_int ttl \<longrightarrow>
            fst (get_simple (snd (set_simple m t0 key v ttl)) now key) = PNone
          \<and> map_of (cache (snd (get_simple (snd (set_simple m t0 key v ttl)) now key))) key = None)"
  using assms by (auto simp: get_after_set delete_conv')

theorem expiry_boundary_witness:
  "fst (set_simple init_simple 0 ''k'' (PInt 7) 1)
   \<and> get_simple (snd (set_simple init_simple 0 ''k'' (PInt 7) 1)) (1/2) ''k''
       = (PInt 7, snd (set_simple init_simple 0 ''k'' (PInt 7) 1))
   \<and> fst (get_simple (snd (set_simple init_simple 0 ''k'' (PInt 7) 1)) 2 ''k'') = PNone
   \<and> map_of (cache (snd (get_simple (snd (set_simple init_simple 0 ''k'' (PInt 7) 1)) 2 ''k''))) ''k''
       = None"
proof -
  have c: "fst (set_simple init_simple 0 ''k'' (PInt 7) 1)"
    by (simp add: set_simple_def init_simple_def int_fits_float_def)
  show ?thesis
    using c expiry_boundary[OF c, of "1/2"] expiry_boundary[OF c, of 2]
    by simp
qed

text \<open>
  C5, as the spec states it, makes every \<open>get\<close> after a \<open>set\<close> with \<open>ttl \<le> 0\<close> return
  \<open>None\<close>, also one with no clock advance. With \<open>ttl = 0\<close> the entry expires at the time
  of the \<open>set\<close>, and a \<open>get\<close> at that same clock reading returns the value. And a \<open>set\<close>
  whose ttl is beyond the float range (\<open>-10^309\<close>) returns \<open>False\<close> and stores nothing:
  the entry that was under the key before is still returned.
\<close>

theorem zero_ttl_counterexample:
  "fst (get_simple (snd (set_simple init_simple 5 ''k'' (PInt 7) 0)) 5 ''k'') = PInt 7
   \<and> set_simple (snd (set_simple init_simple 0 ''k'' (PInt 1) 300)) 5 ''k'' (PInt 7) (- (10 ^ 309))
       = (False, snd (set_simple init_simple 0 ''k'' (PInt 1) 300))
   \<and> fst (get_simple
          (snd (set_simple (snd (set_simple init_simple 0 ''k'' (PInt 1) 300))
                  5 ''k'' (PInt 7) (- (10 ^ 309)))) 5 ''k'') = PInt 1"
  by (simp add: get_simple_def set_simple_def init_simple_def int_fits_float_def)

text \<open>
  C5, amended. After a \<open>set(key, value, ttl)\<close> at time \<open>t0\<close> with \<open>ttl \<le> 0\<close> that stores its
  entry (the call returned \<open>True\<close>), a \<open>get(key)\<close> at a time \<open>now \<ge> t0\<close> returns \<open>None\<close> and
  leaves the key absent, provided \<open>ttl < 0\<close> or the clock has advanced (\<open>now > t0\<close>).
\<close>

theorem nonpositive_ttl_expired:
  assumes "fst (set_simple m t0 key v ttl)" and "ttl \<le> 0" and "t0 \<le> now"
    and "ttl < 0 \<or> t0 < now"
  shows "fst (get_simple (snd (set_simple m t0 key v ttl)) now key) = PNone
       \<and> map_of (cache (snd (get_simple (snd (set_simple m t0 key v ttl)) now key))) key = None"
proof -
  have "now > t0 + real_of_int ttl" using assms(2-4) by auto
  then show ?thesis using assms(1) by (simp add: get_after_set delete_conv')
qed

theorem nonpositive_ttl_expired_witness:
  "fst (set_simple init_simple 5 ''k'' (PInt 7) (-1))
   \<and> fst (set_simple init_simple 5 ''k'' (PInt 7) 0)
   \<and> (-1::int) \<le> 0 \<and> (5::real) \<le> 5 \<and> ((-1::int) < 0 \<or> (5::real) < 5)
   \<and> fst (get_simple (snd (set_simple init_simple 5 ''k'' (PInt 7) (-1))) 5 ''k'') = PNone
   \<and> (0::int) \<le> 0 \<and> (5::real) \<le> 6 \<and> ((0::int) < 0 \<or> (5::real) < 6)
   \<and> fst (get_simple (snd (set_simple init_simple 5 ''k'' (PInt 7) 0)) 6 ''k'') = PNone"
proof -
  have c: "fst (set_simple init_simple 5 ''k'' (PInt 7) (-1))"
    by (simp add: set_simple_def init_simple_def int_fits_float_def)
  have d: "fst (set_simple init_simple 5 ''k'' (PInt 7) 0)"
    by (simp add: set_simple_def init_simple_def int_fits_float_def)
  have a: "fst (get_simple (snd (set_simple init_simple 5 ''k'' (PInt 7) (-1))) 5 ''k'') = PNone"
    using nonpositive_ttl_expired[OF c, of 5] by simp
  have b: "fst (get_simple (snd (set_simple init_simple 5 ''k'' (PInt 7) 0)) 6 ''k'') = PNone"
    using nonpositive_ttl_expired[OF d, of 6] by simp
  show ?thesis using a b c d by simp
qed

text \<open>
  C8, as the spec states it, holds for every ttl. \<open>set\<close> does not check the sign of its
  \<open>expire\<close> argument: with \<open>expire = 0\<close> the entry has \<open>expires_at = created_at\<close>.
\<close>

theorem entry_timestamps_counterexample:
  "map_of (cache (snd (set_simple init_simple 5 ''k'' (PInt 7) 0))) ''k''
     = Some \<lparr>data = PInt 7, expires_at = 5, created_at = 5\<rparr>
   \<and> \<not> (expires_at \<lparr>data = PInt 7, expires_at = 5, created_at = 5\<rparr>
          > created_at \<lparr>data = PInt 7, expires_at = 5, created_at = 5\<rparr>)"
  by (simp add: set_simple_def init_simple_def int_fits_float_def)

text \<open>
  C8, amended. Every entry that \<open>set\<close> creates, whatever the ttl, has \<open>created_at = now\<close>
  and \<open>expires_at = created_at + ttl\<close>, so that \<open>expires_at > created_at\<close> holds exactly
  when the ttl is positive. A \<open>set\<close> that returns \<open>False\<close> creates no entry: it leaves the
  manager as it was.
\<close>

theorem entry_timestamps:
  "(fst (set_simple m now key v ttl) \<longrightarrow>
      (\<exists>e. map_of (cache (snd (set_simple m now key v ttl))) key = Some e
           \<and> data e = v \<and> created_at e = now
           \<and> expires_at e = created_at e + real_of_int ttl
           \<and> (expires_at e > created_at e \<longleftrightarrow> 0 < ttl)))
   \<and> (\<not> fst (set_simple m now key v ttl) \<longrightarrow> snd (set_simple m now key v ttl) = m)"
  by (simp add: set_simple_def update_conv')

theorem entry_timestamps_witness:
  "fst (set_simple init_simple 5 ''k'' (PInt 7) 300)
   \<and> (\<exists>e. map_of (cache (snd (set_simple init_simple 5 ''k'' (PInt 7) 300))) ''k'' = Some e
           \<and> data e = PInt 7 \<and> created_at e = 5
           \<and> expires_at e = created_at e + real_of_int 300
           \<and> (expires_at e > created_at e \<longleftrightarrow> (0::int) < 300))
   \<and> fst (set_simple init_simple 5 ''k'' (PInt 7) (-2))
   \<and> (\<exists>e. map_of (cache (snd (set_simple init_simple 5 ''k'' (PInt 7) (-2)))) ''k'' = Some e
           \<and> data e = PInt 7 \<and> created_at e = 5
           \<and> expires_at e = created_at e + real_of_int (-2)
           \<and> (expires_at e > created_at e \<longleftrightarrow> (0::int) < -2))
   \<and> \<not> fst (set_simple init_simple 5 ''k'' (PInt 7) (10 ^ 309))
   \<and> snd (set_simple init_simple 5 ''k'' (PInt 7) (10 ^ 309)) = init_simple"
proof -
  have a: "fst (set_simple init_simple 5 ''k'' (PInt 7) 300)"
    by (simp add: set_simple_def init_simple_def int_fits_float_def)
  have b: "fst (set_simple init_simple 5 ''k'' (PInt 7) (-2))"
    by (simp add: set_simple_def init_simple_def int_fits_float_def)
  have c: "\<not> fst (set_simple init_simple 5 ''k'' (PInt 7) (10 ^ 309))"
    by (simp add: set_simple_def init_simple_def int_fits_float_def)
  show ?thesis
    using a b c
      entry_timestamps[of init_simple 5 "''k''" "PInt 7" 300]
      entry_timestamps[of init_simple 5 "''k''" "PInt 7" "-2"]
      entry_timestamps[of init_simple 5 "''k''" "PInt 7" "10 ^ 309"]
    by blast
qed

text \<open>
  C7. After \<open>set("products:abc", x)\<close> and \<open>set("product:xyz", y)\<close> on a connected
  manager, the second with a ttl that \<open>set\<close> can store (the default of 300 seconds is
  one), \<open>clear_pattern("products:*")\<close> removes \<open>"products:abc"\<close> and keeps the entry of
  \<open>"product:xyz"\<close>, as it keeps every key that does not start with \<open>"products:"\<close>; a
  \<open>get("product:xyz")\<close> before that entry expires returns \<open>y\<close>.
\<close>

theorem pattern_clear_scoping:
  assumes "connected m" and "int_fits_float e2"
  shows "let m1 = snd (set_simple m t1 ''products:abc'' x e1);
             m2 = snd (set_simple m1 t2 ''product:xyz'' y e2);
             m3 = snd (clear_pattern_simple m2 ''products:*'')
         in fst (clear_pattern_simple m2 ''products:*'') = True
          \<and> map_of (cache m3) ''products:abc'' = None
          \<and> map_of (cache m3) ''product:xyz''
              = Some \<lparr>data = y, expires_at = t2 + real_of_int e2, created_at = t2\<rparr>
          \<and> (t3 \<le> t2 + real_of_int e2 \<longrightarrow> get_simple m3 t3 ''product:xyz'' = (y, m3))
          \<and> (\<forall>k. \<not> startswith k ''products:'' \<longrightarrow> map_of (cache m3) k = map_of (cache m2) k)"
proof -
  define m1 where "m1 = snd (set_simple m t1 ''products:abc'' x e1)"
  define m2 where "m2 = snd (set_simple m1 t2 ''product:xyz'' y e2)"
  define m3 where "m3 = snd (clear_pattern_simple m2 ''products:*'')"
  have c1: "connected m1" using assms by (simp add: m1_def set_simple_def)
  have c2: "connected m2" using c1 by (simp add: m2_def set_simple_def)
  have c3: "connected m3" using c2 by (simp add: m3_def clear_pattern_simple_def Let_def)
  have r: "replace_star ''products:*'' = ''products:''" by (simp add: replace_star_def)
  have look: "map_of (cache m3) k =
              (if startswith k ''products:'' then None else map_of (cache m2) k)" for k
    unfolding m3_def using map_of_clear_pattern[OF c2, of "''products:*''" k] by (simp add: r)
  have xyz2: "map_of (cache m2) ''product:xyz''
              = Some \<lparr>data = y, expires_at = t2 + real_of_int e2, created_at = t2\<rparr>"
    using c1 assms(2) by (simp add: m2_def set_simple_def update_conv')
  have xyz3: "map_of (cache m3) ''product:xyz''
              = Some \<lparr>data = y, expires_at = t2 + real_of_int e2, created_at = t2\<rparr>"
    using xyz2 by (simp add: look startswith_def)
  have abc: "map_of (cache m3) ''products:abc'' = None"
    by (simp add: look startswith_def)
  have g: "t3 \<le> t2 + real_of_int e2 \<Longrightarrow> get_simple m3 t3 ''product:xyz'' = (y, m3)"
    using c3 xyz3 by (simp add: get_simple_def)
  have ok: "fst (clear_pattern_simple m2 ''products:*'') = True"
    using c2 by (simp add: clear_pattern_simple_def Let_def)
  show ?thesis
    unfolding Let_def m1_def[symmetric] m2_def[symmetric] m3_def[symmetric]
    using ok abc xyz3 g look by simp
qed

theorem pattern_clear_scoping_witness:
  "connected init_simple \<and> int_fits_float 300
   \<and> cache (snd (clear_pattern_simple
        (snd (set_simple (snd (set_simple init_simple 0 ''products:abc'' (PInt 1) 300))
               0 ''product:xyz'' (PInt 2) 300)) ''products:*''))
       = [(''product:xyz'', \<lparr>data = PInt 2, expires_at = 300, created_at = 0\<rparr>)]
   \<and> get_simple (snd (clear_pattern_simple
        (snd (set_simple (snd (set_simple init_simple 0 ''products:abc'' (PInt 1) 300))
               0 ''product:xyz'' (PInt 2) 300)) ''products:*'')) 1 ''product:xyz''
       = (PInt 2, snd (clear_pattern_simple
        (snd (set_simple (snd (set_simple init_simple 0 ''products:abc'' (PInt 1) 300))
               0 ''product:xyz'' (PInt 2) 300)) ''products:*''))"
proof -
  have c: "connected init_simple" by (simp add: init_simple_def)
  have v: "cache (snd (clear_pattern_simple
        (snd (set_simple (snd (set_simple init_simple 0 ''products:abc'' (PInt 1) 300))
               0 ''product:xyz'' (PInt 2) 300)) ''products:*''))
       = [(''product:xyz'', \<lparr>data = PInt 2, expires_at = 300, created_at = 0\<rparr>)]"
    by (simp add: clear_pattern_simple_def set_simple_def init_simple_def Let_def
        replace_star_def startswith_def del_keys_def AList.delete_eq int_fits_float_def)
  have f: "int_fits_float 300" by (simp add: int_fits_float_def)
  show ?thesis
    using c f v pattern_clear_scoping[OF c f, of 0 "PInt 1" 300 0 "PInt 2" 1]
    by (simp add: Let_def)
qed

text \<open>
  C6. \<open>clear_pattern\<close> on a pattern with no wildcard deletes every key that starts with
  the pattern, not only the key equal to it: with the keys \<open>"x"\<close> and \<open>"xy"\<close> stored,
  \<open>clear_pattern("x")\<close> empties the store, \<open>get("xy")\<close> returns \<open>None\<close> afterwards, and
  the key count that \<open>get_cache_stats\<close> reports goes from 2 to 0.
\<close>

theorem clear_exact_pattern_removes_prefixed:
  "cache (snd (set_simple (snd (set_simple init_simple 0 ''x'' (PInt 1) 300)) 0 ''xy'' (PInt 2) 300))
     = [(''x'', \<lparr>data = PInt 1, expires_at = 300, created_at = 0\<rparr>),
        (''xy'', \<lparr>data = PInt 2, expires_at = 300, created_at = 0\<rparr>)]
   \<and> fst (get_cache_stats_simple
        (snd (set_simple (snd (set_simple init_simple 0 ''x'' (PInt 1) 300)) 0 ''xy'' (PInt 2) 300)) 1)
     = (''connected'', 2)
   \<and> clear_pattern_simple
        (snd (set_simple (snd (set_simple init_simple 0 ''x'' (PInt 1) 300)) 0 ''xy'' (PInt 2) 300)) ''x''
     = (True, \<lparr>connected = True, cache = []\<rparr>)
   \<and> fst (get_simple \<lparr>connected = True, cache = []\<rparr> 1 ''xy'') = PNone
   \<and> fst (get_cache_stats_simple \<lparr>connected = True, cache = []\<rparr> 1) = (''connected'', 0)"
  by (simp add: clear_pattern_simple_def set_simple_def init_simple_def Let_def get_simple_def
      get_cache_stats_simple_def cleanup_expired_def int_fits_float_def
      replace_star_def startswith_def del_keys_def AList.delete_eq)

section \<open>Properties of the key derivation\<close>

lemma py_eq_list_dumps:
  assumes "\<And>x y. x \<in> set xs \<Longrightarrow> wf_py x \<Longrightarrow> wf_py y \<Longrightarrow> py_eq x y \<Longrightarrow> dumps x = dumps y"
    and "list_all wf_py xs" and "list_all wf_py ys" and "py_eq_list xs ys"
  shows "map dumps xs = map dumps ys"
  using assms
proof (induction xs arbitrary: ys)
  case Nil
  then show ?case by simp
next
  case (Cons x xs)
  then show ?case by (cases ys) auto
qed

lemma py_eq_items_lookup:
  "py_eq_items xs ys \<Longrightarrow> (k, v) \<in> set xs \<Longrightarrow> \<exists>v'. map_of ys k = Some v' \<and> py_eq v v'"
  by (induction xs) (auto split: option.splits)

lemma py_eq_items_keys:
  assumes "py_eq_items xs ys" "length xs = length ys"
    and "distinct (map fst xs)" "distinct (map fst ys)"
  shows "fst ` set xs = fst ` set ys"
proof -
  have sub: "fst ` set xs \<subseteq> fst ` set ys"
  proof
    fix k assume "k \<in> fst ` set xs"
    then obtain v where "(k, v) \<in> set xs" by auto
    from py_eq_items_lookup[OF assms(1) this] obtain v' where "map_of ys k = Some v'" by blast
    then have "(k, v') \<in> set ys" by (rule map_of_SomeD)
    then show "k \<in> fst ` set ys" by force
  qed
  have "card (fst ` set xs) = length xs"
    using assms(3) distinct_card[of "map fst xs"] by simp
  moreover have "card (fst ` set ys) = length ys"
    using assms(4) distinct_card[of "map fst ys"] by simp
  ultimately have "card (fst ` set xs) = card (fst ` set ys)" using assms(2) by simp
  with sub show ?thesis by (simp add: card_subset_eq)
qed

lemma sorted_keys_unique:
  assumes "distinct (map fst xs)" "distinct (map fst ys)" "fst ` set xs = fst ` set ys"
  shows "map fst (sort_key fst xs) = map fst (sort_key fst ys)"
proof (rule sorted_distinct_set_unique)
  show "sorted (map fst (sort_key fst xs))" "sorted (map fst (sort_key fst ys))"
    by (rule sorted_sort_key)+
  have "mset (map fst (sort_key fst xs)) = mset (map fst xs)" by simp
  then show "distinct (map fst (sort_key fst xs))"
    using assms(1) by (metis mset_eq_imp_distinct_iff)
  have "mset (map fst (sort_key fst ys)) = mset (map fst ys)" by simp
  then show "distinct (map fst (sort_key fst ys))"
    using assms(2) by (metis mset_eq_imp_distinct_iff)
  show "set (map fst (sort_key fst xs)) = set (map fst (sort_key fst ys))"
    using assms(3) by simp
qed

lemma map_via_lookup:
  assumes "distinct (map fst xs)" "set zs \<subseteq> set xs"
  shows "map f zs = map (\<lambda>k. f (k, the (map_of xs k))) (map fst zs)"
  using assms by (auto simp: comp_def)

lemma py_eq_items_dumps:
  assumes IH: "\<And>k v y. (k, v) \<in> set xs \<Longrightarrow> wf_py v \<Longrightarrow> wf_py y \<Longrightarrow> py_eq v y \<Longrightarrow> dumps v = dumps y"
    and wfx: "distinct (map fst xs)" "list_all (\<lambda>(k, v). wf_py v) xs"
    and wfy: "distinct (map fst ys)" "list_all (\<lambda>(k, v). wf_py v) ys"
    and eq: "length xs = length ys" "py_eq_items xs ys"
  shows "map encode_item (sort_key fst xs) = map encode_item (sort_key fst ys)"
proof -
  have keys: "fst ` set xs = fst ` set ys"
    using py_eq_items_keys[OF eq(2) eq(1) wfx(1) wfy(1)] .
  have L: "map fst (sort_key fst xs) = map fst (sort_key fst ys)"
    using sorted_keys_unique[OF wfx(1) wfy(1) keys] .
  have X: "map encode_item (sort_key fst xs)
           = map (\<lambda>k. encode_item (k, the (map_of xs k))) (map fst (sort_key fst xs))"
    by (rule map_via_lookup[OF wfx(1)]) simp
  have Y: "map encode_item (sort_key fst ys)
           = map (\<lambda>k. encode_item (k, the (map_of ys k))) (map fst (sort_key fst ys))"
    by (rule map_via_lookup[OF wfy(1)]) simp
  have "map (\<lambda>k. encode_item (k, the (map_of xs k))) (map fst (sort_key fst xs))
        = map (\<lambda>k. encode_item (k, the (map_of ys k))) (map fst (sort_key fst xs))"
  proof (rule map_cong[OF refl])
    fix k assume "k \<in> set (map fst (sort_key fst xs))"
    then obtain v where kv: "(k, v) \<in> set xs" by auto
    then have mx: "map_of xs k = Some v" using wfx(1) by simp
    from py_eq_items_lookup[OF eq(2) kv] obtain v' where
      my: "map_of ys k = Some v'" and pe: "py_eq v v'" by blast
    have "(k, v') \<in> set ys" using my by (rule map_of_SomeD)
    then have "wf_py v'" using wfy(2) by (auto simp: list_all_iff)
    moreover have "wf_py v" using wfx(2) kv by (auto simp: list_all_iff)
    ultimately have "dumps v = dumps v'" using IH[OF kv] pe by blast
    then show "encode_item (k, the (map_of xs k)) = encode_item (k, the (map_of ys k))"
      by (simp add: mx my)
  qed
  with X Y L show ?thesis by simp
qed

lemma py_eq_dumps:
  "wf_py a \<Longrightarrow> wf_py b \<Longrightarrow> py_eq a b \<Longrightarrow> dumps a = dumps b"
proof (induction a arbitrary: b)
  case (PList xs)
  show ?case
  proof (cases b)
    case (PList ys)
    have "map dumps xs = map dumps ys"
      using PList.IH PList.prems PList by (intro py_eq_list_dumps) auto
    then show ?thesis using PList by simp
  qed (use PList.prems in auto)
next
  case (PDict xs)
  show ?case
  proof (cases b)
    case b: (PDict ys)
    have "map encode_item (sort_key fst xs) = map encode_item (sort_key fst ys)"
    proof (rule py_eq_items_dumps)
      fix k v y assume "(k, v) \<in> set xs" "wf_py v" "wf_py y" "py_eq v y"
      then show "dumps v = dumps y" using PDict.IH[of "(k, v)" v y] by simp
    qed (use PDict.prems b in auto)
    then show ?thesis using b by simp
  qed (use PDict.prems in auto)
qed auto

text \<open>
  C4. For every namespace and every two parameter sets that hold the same key-value
  pairs, in whatever order they and their nested dictionaries were built,
  \<open>_generate_key\<close> returns the same result: the same key string, or the same
  \<open>TypeError\<close> when a value cannot be serialised.
\<close>

theorem generate_key_deterministic:
  assumes "wf_py (PDict p1)" and "wf_py (PDict p2)" and "py_eq (PDict p1) (PDict p2)"
  shows "generate_key H ns p1 = generate_key H ns p2"
  using py_eq_dumps[OF assms] by (simp only: generate_key_def)

theorem generate_key_deterministic_witness:
  "wf_py (PDict [(''category'', PStr ''pla''),
                 (''price'', PDict [(''min'', PInt 1), (''max'', PInt 9)])])
   \<and> wf_py (PDict [(''price'', PDict [(''max'', PInt 9), (''min'', PInt 1)]),
                   (''category'', PStr ''pla'')])
   \<and> py_eq (PDict [(''category'', PStr ''pla''),
                   (''price'', PDict [(''min'', PInt 1), (''max'', PInt 9)])])
            (PDict [(''price'', PDict [(''max'', PInt 9), (''min'', PInt 1)]),
                   (''category'', PStr ''pla'')])
   \<and> generate_key id ''products''
        [(''category'', PStr ''pla''), (''price'', PDict [(''min'', PInt 1), (''max'', PInt 9)])]
     = generate_key id ''products''
        [(''price'', PDict [(''max'', PInt 9), (''min'', PInt 1)]), (''category'', PStr ''pla'')]"
proof -
  let ?p1 = "[(''category'', PStr ''pla''),
              (''price'', PDict [(''min'', PInt 1), (''max'', PInt 9)])]"
  let ?p2 = "[(''price'', PDict [(''max'', PInt 9), (''min'', PInt 1)]),
              (''category'', PStr ''pla'')]"
  have a: "wf_py (PDict ?p1)" by simp
  have b: "wf_py (PDict ?p2)" by simp
  have c: "py_eq (PDict ?p1) (PDict ?p2)" by simp
  show ?thesis using a b c generate_key_deterministic[OF a b c, of id "''products''"] by simp
qed

section \<open>Properties of the memoization wrappers\<close>

lemma wrapper_hit:
  "generate_key H prefix [(''args'', PStr (str_args args)), (''kwargs'', PDict kwargs)] = Inr k
   \<Longrightarrow> get_simple m t_get k = (c, m1) \<Longrightarrow> c \<noteq> PNone
   \<Longrightarrow> cache_response_simple H str_args prefix expire func args kwargs t_get t_set (m, w)
       = (Inr c, m1, w)"
  by (simp add: cache_response_simple_def)

lemma wrapper_miss:
  "generate_key H prefix [(''args'', PStr (str_args args)), (''kwargs'', PDict kwargs)] = Inr k
   \<Longrightarrow> fst (get_simple m t_get k) = PNone
   \<Longrightarrow> cache_response_simple H str_args prefix expire func args kwargs t_get t_set (m, w)
       = (case func args kwargs (snd (get_simple m t_get k), w) of
            (Inl e, st') \<Rightarrow> (Inl e, st')
          | (Inr result, m2, w2) \<Rightarrow>
              (Inr result, snd (set_simple m2 t_set k result expire), w2))"
  by (auto simp: cache_response_simple_def split: prod.splits)

lemma redis_wrapper_hit:
  "generate_key H prefix [(''args'', PStr (str_args args)), (''kwargs'', PDict kwargs)] = Inr k
   \<Longrightarrow> get_redis api m k = (c, m1) \<Longrightarrow> c \<noteq> PNone
   \<Longrightarrow> cache_response_redis api H str_args prefix expire func args kwargs (m, w)
       = (Inr c, m1, w)"
  by (simp add: cache_response_redis_def)

lemma redis_wrapper_miss:
  "generate_key H prefix [(''args'', PStr (str_args args)), (''kwargs'', PDict kwargs)] = Inr k
   \<Longrightarrow> fst (get_redis api m k) = PNone
   \<Longrightarrow> cache_response_redis api H str_args prefix expire func args kwargs (m, w)
       = (case func args kwargs (snd (get_redis api m k), w) of
            (Inl e, st') \<Rightarrow> (Inl e, st')
          | (Inr result, m2, w2) \<Rightarrow>
              (Inr result, snd (set_redis api m2 k result expire), w2))"
  by (auto simp: cache_response_redis_def split: prod.splits)

lemma get_redis_reply:
  "connected m \<Longrightarrow> redis m = Some rh \<Longrightarrow> redis_get api rh k = (Inr (Some s), rh')
   \<Longrightarrow> s \<noteq> [] \<Longrightarrow> json_loads api s = Inr c
   \<Longrightarrow> get_redis api m k = (c, m\<lparr>redis := Some rh'\<rparr>)"
  by (simp add: get_redis_def)

lemma set_redis_stored:
  "set_redis api m k v expire = (True, m1) \<Longrightarrow> connected m1 \<and> connected m"
  by (auto simp: set_redis_def split: if_splits option.splits sum.splits prod.splits)

lemma get_after_set_none:
  "int_fits_float ttl \<Longrightarrow>
   fst (get_simple (snd (set_simple m t0 key PNone ttl)) now key) = PNone"
  by (simp add: get_simple_def set_simple_def update_conv')

lemma str_of_int_1: "str_of_int 1 = ''1''"
  by code_simp

lemma loads_scalar_1: "loads_scalar ''1'' = Inr (PInt 1)"
  by code_simp

lemma derived_key_ns:
  "generate_key id ''ns'' [(''args'', PStr ''()''), (''kwargs'', PDict [])]
     = Inr (''ns:{'' @ [CHR 0x22] @ ''args'' @ [CHR 0x22] @ '': '' @ [CHR 0x22] @ ''()''
              @ [CHR 0x22] @ '', '' @ [CHR 0x22] @ ''kwargs'' @ [CHR 0x22] @ '': {}}'')"
  by (simp add: generate_key_def encode_basestring_ascii_def escape_char_def)

text \<open>
  C1, as the spec states it, covers every operation and both wrappers. On
  \<open>simple_cache.py\<close> an operation that returns \<open>None\<close> is stored and still executed
  again: wrapped around \<open>none_op\<close>, the first call stores the entry with \<open>data = None\<close>,
  and the second call, one second later and well inside the ttl of 300 seconds, runs the
  operation a second time (the counter reaches 2). On \<open>cache.py\<close> a hit returns what
  \<open>json.loads\<close> makes of the stored text: wrapped around \<open>object_op\<close>, the first call
  returns the object and the second call, a hit that leaves the counter at 1, returns the
  string \<open>2024-01-01\<close>.
\<close>

theorem memoize_none_counterexample:
  "map snd (cache (fst (snd
      (cache_response_simple id (\<lambda>args. ''()'') ''ns'' 300 none_op [] [] 0 0 (init_simple, 0)))))
     = [\<lparr>data = PNone, expires_at = 300, created_at = 0\<rparr>]
   \<and> snd (snd (cache_response_simple id (\<lambda>args. ''()'') ''ns'' 300 none_op [] [] 0 0
                  (init_simple, 0))) = 1
   \<and> snd (snd (cache_response_simple id (\<lambda>args. ''()'') ''ns'' 300 none_op [] [] 1 1
        (snd (cache_response_simple id (\<lambda>args. ''()'') ''ns'' 300 none_op [] [] 0 0
                (init_simple, 0))))) = 2
   \<and> fst (cache_response_redis kv_client id (\<lambda>args. ''()'') ''ns'' 300 object_op [] []
             (\<lparr>connected = True, redis = Some []\<rparr>, 0)) = Inr (PObject 0)
   \<and> snd (snd (cache_response_redis kv_client id (\<lambda>args. ''()'') ''ns'' 300 object_op [] []
             (\<lparr>connected = True, redis = Some []\<rparr>, 0))) = 1
   \<and> fst (cache_response_redis kv_client id (\<lambda>args. ''()'') ''ns'' 300 object_op [] []
        (snd (cache_response_redis kv_client id (\<lambda>args. ''()'') ''ns'' 300 object_op [] []
                (\<lparr>connected = True, redis = Some []\<rparr>, 0)))) = Inr (PStr ''2024-01-01'')
   \<and> snd (snd (cache_response_redis kv_client id (\<lambda>args. ''()'') ''ns'' 300 object_op [] []
        (snd (cache_response_redis kv_client id (\<lambda>args. ''()'') ''ns'' 300 object_op [] []
                (\<lparr>connected = True, redis = Some []\<rparr>, 0))))) = 1"
proof -
  have a: "cache_response_simple id (\<lambda>args. ''()'') ''ns'' 300 none_op [] [] 0 0 (init_simple, 0)
        = (Inr PNone,
           \<lparr>connected = True,
            cache = [(''ns:{'' @ [CHR 0x22] @ ''args'' @ [CHR 0x22] @ '': '' @ [CHR 0x22] @ ''()''
                       @ [CHR 0x22] @ '', '' @ [CHR 0x22] @ ''kwargs'' @ [CHR 0x22] @ '': {}}'',
                      \<lparr>data = PNone, expires_at = 300, created_at = 0\<rparr>)]\<rparr>,
           1)"
    by (simp add: cache_response_simple_def derived_key_ns get_simple_def set_simple_def
        init_simple_def none_op_def int_fits_float_def)
  have b: "snd (snd (cache_response_simple id (\<lambda>args. ''()'') ''ns'' 300 none_op [] [] 1 1
        (snd (cache_response_simple id (\<lambda>args. ''()'') ''ns'' 300 none_op [] [] 0 0
                (init_simple, 0))))) = 2"
    unfolding a
    by (simp add: cache_response_simple_def derived_key_ns get_simple_def set_simple_def
        none_op_def int_fits_float_def)
  have c: "cache_response_redis kv_client id (\<lambda>args. ''()'') ''ns'' 300 object_op [] []
             (\<lparr>connected = True, redis = Some []\<rparr>, 0)
        = (Inr (PObject 0),
           \<lparr>connected = True,
            redis = Some [(''ns:{'' @ [CHR 0x22] @ ''args'' @ [CHR 0x22] @ '': '' @ [CHR 0x22]
                            @ ''()'' @ [CHR 0x22] @ '', '' @ [CHR 0x22] @ ''kwargs''
                            @ [CHR 0x22] @ '': {}}'',
                          [CHR 0x22] @ ''2024-01-01'' @ [CHR 0x22])]\<rparr>,
           1)"
    by (simp add: cache_response_redis_def derived_key_ns get_redis_def set_redis_def
        kv_client_def object_op_def encode_basestring_ascii_def escape_char_def)
  have d: "cache_response_redis kv_client id (\<lambda>args. ''()'') ''ns'' 300 object_op [] []
        (snd (cache_response_redis kv_client id (\<lambda>args. ''()'') ''ns'' 300 object_op [] []
                (\<lparr>connected = True, redis = Some []\<rparr>, 0)))
        = (Inr (PStr ''2024-01-01''),
           \<lparr>connected = True,
            redis = Some [(''ns:{'' @ [CHR 0x22] @ ''args'' @ [CHR 0x22] @ '': '' @ [CHR 0x22]
                            @ ''()'' @ [CHR 0x22] @ '', '' @ [CHR 0x22] @ ''kwargs''
                            @ [CHR 0x22] @ '': {}}'',
                          [CHR 0x22] @ ''2024-01-01'' @ [CHR 0x22])]\<rparr>,
           1)"
    unfolding c
    by (simp add: cache_response_redis_def derived_key_ns get_redis_def
        kv_client_def loads_scalar_def is_json_nat_def is_digit_def is_plain_char_def)
  show ?thesis unfolding d unfolding c b unfolding a by simp
qed

text \<open>
  C1, amended. When a call misses, the operation returns a value other than \<open>None\<close> and
  that result is stored (\<open>set\<close> returned \<open>True\<close>), the call returns the value, and a second
  call with the identical arguments while the entry is live does not execute the
  operation and leaves the world as the first call left it. On \<open>simple_cache.py\<close> the
  entry is live at every clock reading \<open>t3 \<le> t2 + expire\<close>, \<open>t2\<close> being the time of the
  \<open>set\<close>, and the second call returns the same value. On \<open>cache.py\<close> the entry is live
  while the server replies with the stored text \<open>s\<close>, the \<open>json.dumps(result, default=str)\<close>
  of the first call, and the second call returns \<open>json.loads(s)\<close> when that is not
  \<open>None\<close>: the same value exactly when the result survives that round trip.
\<close>

theorem memoize_round_trip:
  assumes key: "generate_key H prefix
                  [(''args'', PStr (str_args args)), (''kwargs'', PDict kwargs)] = Inr k"
    and miss: "get_simple m t1 k = (PNone, m0)"
    and run: "func args kwargs (m0, w) = (Inr r, m', w')"
    and stored: "fst (set_simple m' t2 k r expire)"
    and val: "r \<noteq> PNone"
    and window: "t3 \<le> t2 + real_of_int expire"
    and rmiss: "get_redis api rm k = (PNone, rm0)"
    and rrun: "rfunc args kwargs (rm0, rw) = (Inr r2, rm', rw')"
    and rstored: "set_redis api rm' k r2 expire = (True, rm1)"
    and rtext: "json_dumps_default api r2 = Inr s"
    and rreply: "redis_get api rh k = (Inr (Some s), rh')"
    and rnonempty: "s \<noteq> []"
    and rdecode: "json_loads api s = Inr c"
    and rval: "c \<noteq> PNone"
  shows "cache_response_simple H str_args prefix expire func args kwargs t1 t2 (m, w)
           = (Inr r, snd (set_simple m' t2 k r expire), w')
       \<and> cache_response_simple H str_args prefix expire func args kwargs t3 t4
             (snd (set_simple m' t2 k r expire), w')
           = (Inr r, snd (set_simple m' t2 k r expire), w')
       \<and> cache_response_redis api H str_args prefix expire rfunc args kwargs (rm, rw)
           = (Inr r2, rm1, rw')
       \<and> cache_response_redis api H str_args prefix expire rfunc args kwargs
             (rm1\<lparr>redis := Some rh\<rparr>, rw')
           = (Inr c, rm1\<lparr>redis := Some rh'\<rparr>, rw')
       \<and> (c = r2 \<longleftrightarrow> json_loads api s = Inr r2)"
proof -
  have g: "fst (get_simple m t1 k) = PNone" using miss by simp
  have first: "cache_response_simple H str_args prefix expire func args kwargs t1 t2 (m, w)
                 = (Inr r, snd (set_simple m' t2 k r expire), w')"
    unfolding wrapper_miss[where str_args=str_args and args=args, OF key g]
    using miss run by simp
  have g2: "get_simple (snd (set_simple m' t2 k r expire)) t3 k
              = (r, snd (set_simple m' t2 k r expire))"
    using window by (simp add: get_after_set[OF stored])
  have second: "cache_response_simple H str_args prefix expire func args kwargs t3 t4
               (snd (set_simple m' t2 k r expire), w')
             = (Inr r, snd (set_simple m' t2 k r expire), w')"
    by (rule wrapper_hit[where str_args=str_args and args=args, OF key g2 val])
  have rg: "fst (get_redis api rm k) = PNone" using rmiss by simp
  have rfirst: "cache_response_redis api H str_args prefix expire rfunc args kwargs (rm, rw)
                  = (Inr r2, rm1, rw')"
    unfolding redis_wrapper_miss[where str_args=str_args and args=args, OF key rg]
    using rmiss rrun rstored by simp
  have conn: "connected (rm1\<lparr>redis := Some rh\<rparr>)"
    using set_redis_stored[OF rstored] by simp
  have rg2: "get_redis api (rm1\<lparr>redis := Some rh\<rparr>) k = (c, rm1\<lparr>redis := Some rh'\<rparr>)"
    using get_redis_reply[OF conn _ rreply rnonempty rdecode] by simp
  have rsecond: "cache_response_redis api H str_args prefix expire rfunc args kwargs
                   (rm1\<lparr>redis := Some rh\<rparr>, rw')
                 = (Inr c, rm1\<lparr>redis := Some rh'\<rparr>, rw')"
    by (rule redis_wrapper_hit[where str_args=str_args and args=args, OF key rg2 rval])
  have same: "c = r2 \<longleftrightarrow> json_loads api s = Inr r2" using rdecode by auto
  from first second rfirst rsecond same show ?thesis by blast
qed

theorem memoize_round_trip_witness:
  "fst (cache_response_simple id (\<lambda>args. ''()'') ''ns'' 300 counting_op [] [] 0 0
             (init_simple, 0)) = Inr (PInt 1)
   \<and> snd (snd (cache_response_simple id (\<lambda>args. ''()'') ''ns'' 300 counting_op [] [] 0 0
                  (init_simple, 0))) = 1
   \<and> fst (cache_response_simple id (\<lambda>args. ''()'') ''ns'' 300 counting_op [] [] 300 300
        (snd (cache_response_simple id (\<lambda>args. ''()'') ''ns'' 300 counting_op [] [] 0 0
                (init_simple, 0)))) = Inr (PInt 1)
   \<and> snd (snd (cache_response_simple id (\<lambda>args. ''()'') ''ns'' 300 counting_op [] [] 300 300
        (snd (cache_response_simple id (\<lambda>args. ''()'') ''ns'' 300 counting_op [] [] 0 0
                (init_simple, 0))))) = 1
   \<and> fst (cache_response_redis kv_client id (\<lambda>args. ''()'') ''ns'' 300 counting_op [] []
             (\<lparr>connected = True, redis = Some []\<rparr>, 0)) = Inr (PInt 1)
   \<and> snd (snd (cache_response_redis kv_client id (\<lambda>args. ''()'') ''ns'' 300 counting_op [] []
             (\<lparr>connected = True, redis = Some []\<rparr>, 0))) = 1
   \<and> fst (cache_response_redis kv_client id (\<lambda>args. ''()'') ''ns'' 300 counting_op [] []
        (snd (cache_response_redis kv_client id (\<lambda>args. ''()'') ''ns'' 300 counting_op [] []
                (\<lparr>connected = True, redis = Some []\<rparr>, 0)))) = Inr (PInt 1)
   \<and> snd (snd (cache_response_redis kv_client id (\<lambda>args. ''()'') ''ns'' 300 counting_op [] []
        (snd (cache_response_redis kv_client id (\<lambda>args. ''()'') ''ns'' 300 counting_op [] []
                (\<lparr>connected = True, redis = Some []\<rparr>, 0))))) = 1"
proof -
  let ?k = "''ns:{'' @ [CHR 0x22] @ ''args'' @ [CHR 0x22] @ '': '' @ [CHR 0x22] @ ''()''
              @ [CHR 0x22] @ '', '' @ [CHR 0x22] @ ''kwargs'' @ [CHR 0x22] @ '': {}}''"
  let ?rm = "\<lparr>connected = True, redis = Some ([] :: (string \<times> string) list)\<rparr>"
  let ?rm1 = "\<lparr>connected = True, redis = Some [(?k, ''1'')]\<rparr>"
  have miss: "get_simple init_simple 0 ?k = (PNone, init_simple)"
    by (simp add: get_simple_def init_simple_def)
  have run: "counting_op [] [] (init_simple, 0::nat) = (Inr (PInt 1), init_simple, 1)"
    by (simp add: counting_op_def)
  have stored: "fst (set_simple init_simple 0 ?k (PInt 1) 300)"
    by (simp add: set_simple_def init_simple_def int_fits_float_def)
  have val: "PInt 1 \<noteq> PNone" by simp
  have window: "(300::real) \<le> 0 + real_of_int 300" by simp
  have rmiss: "get_redis kv_client ?rm ?k = (PNone, ?rm)"
    by (simp add: get_redis_def kv_client_def)
  have rrun: "counting_op [] [] (?rm, 0::nat) = (Inr (PInt 1), ?rm, 1)"
    by (simp add: counting_op_def)
  have rstored: "set_redis kv_client ?rm ?k (PInt 1) 300 = (True, ?rm1)"
    by (simp add: set_redis_def kv_client_def str_of_int_1)
  have rtext: "json_dumps_default kv_client (PInt 1) = Inr ''1''"
    by (simp add: kv_client_def str_of_int_1)
  have rreply: "redis_get kv_client [(?k, ''1'')] ?k = (Inr (Some ''1''), [(?k, ''1'')])"
    by (simp add: kv_client_def)
  have rnonempty: "''1'' \<noteq> []" by simp
  have rdecode: "json_loads kv_client ''1'' = Inr (PInt 1)"
    by (simp add: kv_client_def loads_scalar_1)
  note th = memoize_round_trip[where H=id and str_args="\<lambda>args. ''()''" and args="[]"
        and prefix="''ns''" and kwargs="[]" and k="?k" and func=counting_op
        and rfunc=counting_op and api=kv_client and ?t4.0=300,
        OF derived_key_ns miss run stored val window rmiss rrun rstored rtext rreply
          rnonempty rdecode val]
  have s1: "snd (set_simple init_simple 0 ?k (PInt 1) 300)
            = \<lparr>connected = True, cache = [(?k, \<lparr>data = PInt 1, expires_at = 300, created_at = 0\<rparr>)]\<rparr>"
    by (simp add: set_simple_def init_simple_def int_fits_float_def)
  have s2: "?rm1\<lparr>redis := Some [(?k, ''1'')]\<rparr> = ?rm1" by simp
  show ?thesis using th unfolding s1 s2 by simp
qed

text \<open>
  C9, as stated, holds for every ttl and every operation. When the ttl is beyond the
  float range, the wrapper's \<open>set\<close> fails and the \<open>None\<close> is not stored; an operation that
  has itself stored a value under the derived key, as \<open>storing_none_op\<close> does, then gets a
  hit on the next call: the first call returns \<open>None\<close>, the second returns the stored 1
  and does not run the operation (the counter stays at 1).
\<close>

theorem none_result_hit_counterexample:
  "fst (cache_response_simple id (\<lambda>args. ''()'') ''ns'' (10 ^ 309) storing_none_op [] [] 0 0
          (init_simple, 0)) = Inr PNone
   \<and> snd (snd (cache_response_simple id (\<lambda>args. ''()'') ''ns'' (10 ^ 309) storing_none_op [] []
                  0 0 (init_simple, 0))) = 1
   \<and> fst (cache_response_simple id (\<lambda>args. ''()'') ''ns'' (10 ^ 309) storing_none_op [] [] 1 1
        (snd (cache_response_simple id (\<lambda>args. ''()'') ''ns'' (10 ^ 309) storing_none_op [] []
                0 0 (init_simple, 0)))) = Inr (PInt 1)
   \<and> snd (snd (cache_response_simple id (\<lambda>args. ''()'') ''ns'' (10 ^ 309) storing_none_op [] []
        1 1
        (snd (cache_response_simple id (\<lambda>args. ''()'') ''ns'' (10 ^ 309) storing_none_op [] []
                0 0 (init_simple, 0))))) = 1"
proof -
  have a: "cache_response_simple id (\<lambda>args. ''()'') ''ns'' (10 ^ 309) storing_none_op [] [] 0 0
             (init_simple, 0)
        = (Inr PNone,
           \<lparr>connected = True,
            cache = [(''ns:{'' @ [CHR 0x22] @ ''args'' @ [CHR 0x22] @ '': '' @ [CHR 0x22] @ ''()''
                       @ [CHR 0x22] @ '', '' @ [CHR 0x22] @ ''kwargs'' @ [CHR 0x22] @ '': {}}'',
                      \<lparr>data = PInt 1, expires_at = 300, created_at = 0\<rparr>)]\<rparr>,
           1)"
    by (simp add: cache_response_simple_def derived_key_ns get_simple_def set_simple_def
        init_simple_def storing_none_op_def int_fits_float_def)
  have b: "cache_response_simple id (\<lambda>args. ''()'') ''ns'' (10 ^ 309) storing_none_op [] [] 1 1
        (snd (cache_response_simple id (\<lambda>args. ''()'') ''ns'' (10 ^ 309) storing_none_op [] []
                0 0 (init_simple, 0)))
        = (Inr (PInt 1),
           \<lparr>connected = True,
            cache = [(''ns:{'' @ [CHR 0x22] @ ''args'' @ [CHR 0x22] @ '': '' @ [CHR 0x22] @ ''()''
                       @ [CHR 0x22] @ '', '' @ [CHR 0x22] @ ''kwargs'' @ [CHR 0x22] @ '': {}}'',
                      \<lparr>data = PInt 1, expires_at = 300, created_at = 0\<rparr>)]\<rparr>,
           1)"
    unfolding a
    by (simp add: cache_response_simple_def derived_key_ns get_simple_def)
  show ?thesis unfolding b unfolding a by simp
qed

text \<open>
  C9, amended. When a call of the wrapper returns \<open>None\<close>, the operation has run and
  returned \<open>None\<close>, and the next call with the identical arguments takes the miss path:
  it executes the operation again and stores what it returns. On \<open>simple_cache.py\<close> this
  holds at every later clock reading provided the ttl is within the float range, so
  that \<open>set\<close> does not fail. On \<open>cache.py\<close> it holds whenever the server's reply for
  the key is nothing, an error, or the text \<open>s\<close> that \<open>json.dumps\<close> stores for \<open>None\<close>
  and \<open>json.loads\<close> decodes to \<open>None\<close>.
\<close>

theorem none_result_never_hits:
  assumes key: "generate_key H prefix
                  [(''args'', PStr (str_args args)), (''kwargs'', PDict kwargs)] = Inr k"
    and first: "cache_response_simple H str_args prefix expire func args kwargs t1 t2 (m, w)
                  = (Inr PNone, m', w')"
    and fits: "int_fits_float expire"
    and rfirst: "cache_response_redis api H str_args prefix expire rfunc args kwargs (rm, rw)
                   = (Inr PNone, rm1, rw1)"
    and rtext: "json_dumps_default api PNone = Inr s"
    and rdecode: "json_loads api s = Inr PNone"
    and rreply: "\<And>t. fst (redis_get api rh k) = Inr (Some t) \<Longrightarrow> t = s"
  shows "fst (get_simple m' t3 k) = PNone
       \<and> cache_response_simple H str_args prefix expire func args kwargs t3 t4 (m', w')
           = (case func args kwargs (snd (get_simple m' t3 k), w') of
                (Inl e, st') \<Rightarrow> (Inl e, st')
              | (Inr result, m2, w2) \<Rightarrow>
                  (Inr result, snd (set_simple m2 t4 k result expire), w2))
       \<and> fst (get_redis api (rm1\<lparr>redis := Some rh\<rparr>) k) = PNone
       \<and> cache_response_redis api H str_args prefix expire rfunc args kwargs
             (rm1\<lparr>redis := Some rh\<rparr>, rw1)
           = (case rfunc args kwargs (snd (get_redis api (rm1\<lparr>redis := Some rh\<rparr>) k), rw1) of
                (Inl e, st') \<Rightarrow> (Inl e, st')
              | (Inr result, m2, w2) \<Rightarrow>
                  (Inr result, snd (set_redis api m2 k result expire), w2))"
proof -
  have "\<exists>m2. m' = snd (set_simple m2 t2 k PNone expire)"
    using first key
    by (auto simp: cache_response_simple_def split: prod.splits if_splits sum.splits)
  then have g: "fst (get_simple m' t3 k) = PNone"
    using fits by (auto simp: get_after_set_none)
  have a: "cache_response_simple H str_args prefix expire func args kwargs t3 t4 (m', w')
           = (case func args kwargs (snd (get_simple m' t3 k), w') of
                (Inl e, st') \<Rightarrow> (Inl e, st')
              | (Inr result, m2, w2) \<Rightarrow>
                  (Inr result, snd (set_simple m2 t4 k result expire), w2))"
    by (rule wrapper_miss[where str_args=str_args and args=args, OF key g])
  have rg: "fst (get_redis api (rm1\<lparr>redis := Some rh\<rparr>) k) = PNone"
  proof (cases "redis_get api rh k")
    case (Pair reply rh')
    show ?thesis
    proof (cases reply)
      case (Inl e)
      then show ?thesis using Pair by (simp add: get_redis_def)
    next
      case (Inr o1)
      show ?thesis
      proof (cases o1)
        case None
        then show ?thesis using Pair Inr by (simp add: get_redis_def)
      next
        case (Some t)
        then have "t = s" using rreply[of t] Pair Inr by simp
        then show ?thesis using Pair Inr Some rdecode by (simp add: get_redis_def)
      qed
    qed
  qed
  have b: "cache_response_redis api H str_args prefix expire rfunc args kwargs
             (rm1\<lparr>redis := Some rh\<rparr>, rw1)
           = (case rfunc args kwargs (snd (get_redis api (rm1\<lparr>redis := Some rh\<rparr>) k), rw1) of
                (Inl e, st') \<Rightarrow> (Inl e, st')
              | (Inr result, m2, w2) \<Rightarrow>
                  (Inr result, snd (set_redis api m2 k result expire), w2))"
    by (rule redis_wrapper_miss[where str_args=str_args and args=args, OF key rg])
  from g a rg b show ?thesis by blast
qed

theorem none_result_never_hits_witness:
  "int_fits_float 300
   \<and> cache_response_simple id (\<lambda>args. ''()'') ''ns'' 300 none_op [] [] 0 0 (init_simple, 0)
     = (Inr PNone,
        \<lparr>connected = True,
         cache = [(''ns:{'' @ [CHR 0x22] @ ''args'' @ [CHR 0x22] @ '': '' @ [CHR 0x22] @ ''()''
                    @ [CHR 0x22] @ '', '' @ [CHR 0x22] @ ''kwargs'' @ [CHR 0x22] @ '': {}}'',
                   \<lparr>data = PNone, expires_at = 300, created_at = 0\<rparr>)]\<rparr>,
        1)
   \<and> cache_response_simple id (\<lambda>args. ''()'') ''ns'' 300 none_op [] [] 1 1
        (\<lparr>connected = True,
          cache = [(''ns:{'' @ [CHR 0x22] @ ''args'' @ [CHR 0x22] @ '': '' @ [CHR 0x22] @ ''()''
                     @ [CHR 0x22] @ '', '' @ [CHR 0x22] @ ''kwargs'' @ [CHR 0x22] @ '': {}}'',
                    \<lparr>data = PNone, expires_at = 300, created_at = 0\<rparr>)]\<rparr>,
         1)
     = (Inr PNone,
        \<lparr>connected = True,
         cache = [(''ns:{'' @ [CHR 0x22] @ ''args'' @ [CHR 0x22] @ '': '' @ [CHR 0x22] @ ''()''
                    @ [CHR 0x22] @ '', '' @ [CHR 0x22] @ ''kwargs'' @ [CHR 0x22] @ '': {}}'',
                   \<lparr>data = PNone, expires_at = 301, created_at = 1\<rparr>)]\<rparr>,
        2)
   \<and> cache_response_redis kv_client id (\<lambda>args. ''()'') ''ns'' 300 none_op [] []
        (\<lparr>connected = True, redis = Some []\<rparr>, 0)
     = (Inr PNone,
        \<lparr>connected = True,
         redis = Some [(''ns:{'' @ [CHR 0x22] @ ''args'' @ [CHR 0x22] @ '': '' @ [CHR 0x22]
                         @ ''()'' @ [CHR 0x22] @ '', '' @ [CHR 0x22] @ ''kwargs''
                         @ [CHR 0x22] @ '': {}}'', ''null'')]\<rparr>,
        1)
   \<and> cache_response_redis kv_client id (\<lambda>args. ''()'') ''ns'' 300 none_op [] []
        (\<lparr>connected = True,
          redis = Some [(''ns:{'' @ [CHR 0x22] @ ''args'' @ [CHR 0x22] @ '': '' @ [CHR 0x22]
                         @ ''()'' @ [CHR 0x22] @ '', '' @ [CHR 0x22] @ ''kwargs''
                         @ [CHR 0x22] @ '': {}}'', ''null'')]\<rparr>,
         1)
     = (Inr PNone,
        \<lparr>connected = True,
         redis = Some [(''ns:{'' @ [CHR 0x22] @ ''args'' @ [CHR 0x22] @ '': '' @ [CHR 0x22]
                         @ ''()'' @ [CHR 0x22] @ '', '' @ [CHR 0x22] @ ''kwargs''
                         @ [CHR 0x22] @ '': {}}'', ''null'')]\<rparr>,
        2)"
proof -
  let ?k = "''ns:{'' @ [CHR 0x22] @ ''args'' @ [CHR 0x22] @ '': '' @ [CHR 0x22] @ ''()''
              @ [CHR 0x22] @ '', '' @ [CHR 0x22] @ ''kwargs'' @ [CHR 0x22] @ '': {}}''"
  let ?m1 = "\<lparr>connected = True,
              cache = [(?k, \<lparr>data = PNone, expires_at = 300, created_at = 0\<rparr>)]\<rparr>"
  let ?rm = "\<lparr>connected = True, redis = Some ([] :: (string \<times> string) list)\<rparr>"
  let ?rm1 = "\<lparr>connected = True, redis = Some [(?k, ''null'')]\<rparr>"
  have fits: "int_fits_float 300" by (simp add: int_fits_float_def)
  have first: "cache_response_simple id (\<lambda>args. ''()'') ''ns'' 300 none_op [] [] 0 0
                 (init_simple, 0::nat) = (Inr PNone, ?m1, 1)"
    by (simp add: cache_response_simple_def derived_key_ns get_simple_def set_simple_def
        init_simple_def none_op_def int_fits_float_def)
  have rfirst: "cache_response_redis kv_client id (\<lambda>args. ''()'') ''ns'' 300 none_op [] []
                  (?rm, 0::nat) = (Inr PNone, ?rm1, 1)"
    by (simp add: cache_response_redis_def derived_key_ns get_redis_def set_redis_def
        kv_client_def none_op_def)
  have rtext: "json_dumps_default kv_client PNone = Inr ''null''"
    by (simp add: kv_client_def)
  have rdecode: "json_loads kv_client ''null'' = Inr PNone"
    by (simp add: kv_client_def loads_scalar_def)
  have rreply: "\<And>t. fst (redis_get kv_client [(?k, ''null'')] ?k) = Inr (Some t) \<Longrightarrow> t = ''null''"
    by (simp add: kv_client_def)
  note th = none_result_never_hits[where H=id and str_args="\<lambda>args. ''()''" and args="[]"
        and prefix="''ns''" and kwargs="[]" and k="?k" and func=none_op and rfunc=none_op
        and api=kv_client and ?t3.0=1 and ?t4.0=1 and rh="[(?k, ''null'')]",
        OF derived_key_ns first fits rfirst rtext rdecode rreply]
  show ?thesis
    using fits first rfirst th
    by (simp add: none_op_def get_simple_def set_simple_def int_fits_float_def
        get_redis_def set_redis_def kv_client_def loads_scalar_def)
qed

end
